theory Spec2Isabelle
  imports Complex_Main "HOL-Library.Log_Nat"
begin

section \<open>JavaScript values\<close>

text \<open>
  A JavaScript number is a double: a rational or one of the three non-finite
  values. \<open>js_add\<close>, \<open>js_mul\<close> and \<open>js_div\<close> below give the exact result of an
  operation; IEEE arithmetic then rounds that result to the nearest double, which
  is \<open>round_double\<close>, and \<open>dbl_sub\<close>, \<open>dbl_mul\<close>, \<open>dbl_div\<close> and \<open>dbl_add\<close> are
  the rounded operations. They are used wherever prices enter. On whole numbers
  below \<open>2^53\<close> (quantities, page numbers, counts) sums, differences and products
  are doubles already and the exact operation is used; so is the exact quotient
  under \<open>Math.ceil\<close>, whose value the rounding does not change for such numbers.
  The sign of zero is not modelled.
\<close>

datatype jsnum = NaN | PosInf | NegInf | Fin rat

text \<open>ToBoolean on a number: \<open>0\<close> and \<open>NaN\<close> are falsy.\<close>

fun js_truthy :: "jsnum \<Rightarrow> bool" where
  "js_truthy NaN = False"
| "js_truthy (Fin r) = (r \<noteq> 0)"
| "js_truthy PosInf = True"
| "js_truthy NegInf = True"

fun js_neg :: "jsnum \<Rightarrow> jsnum" where
  "js_neg NaN = NaN"
| "js_neg PosInf = NegInf"
| "js_neg NegInf = PosInf"
| "js_neg (Fin r) = Fin (- r)"

fun js_add :: "jsnum \<Rightarrow> jsnum \<Rightarrow> jsnum" where
  "js_add NaN y = NaN"
| "js_add x NaN = NaN"
| "js_add (Fin a) (Fin b) = Fin (a + b)"
| "js_add PosInf NegInf = NaN"
| "js_add NegInf PosInf = NaN"
| "js_add PosInf y = PosInf"
| "js_add NegInf y = NegInf"
| "js_add (Fin a) y = y"

definition js_sub :: "jsnum \<Rightarrow> jsnum \<Rightarrow> jsnum" where
  "js_sub x y = js_add x (js_neg y)"

text \<open>The infinity whose sign is that of \<open>r\<close>; \<open>NaN\<close> for \<open>0 * Infinity\<close>.\<close>

definition signed_inf :: "rat \<Rightarrow> jsnum" where
  "signed_inf r = (if r = 0 then NaN else if 0 < r then PosInf else NegInf)"

fun js_mul :: "jsnum \<Rightarrow> jsnum \<Rightarrow> jsnum" where
  "js_mul NaN y = NaN"
| "js_mul x NaN = NaN"
| "js_mul (Fin a) (Fin b) = Fin (a * b)"
| "js_mul (Fin a) PosInf = signed_inf a"
| "js_mul (Fin a) NegInf = signed_inf (- a)"
| "js_mul PosInf (Fin b) = signed_inf b"
| "js_mul NegInf (Fin b) = signed_inf (- b)"
| "js_mul PosInf PosInf = PosInf"
| "js_mul NegInf NegInf = PosInf"
| "js_mul PosInf NegInf = NegInf"
| "js_mul NegInf PosInf = NegInf"

fun js_div :: "jsnum \<Rightarrow> jsnum \<Rightarrow> jsnum" where
  "js_div NaN y = NaN"
| "js_div x NaN = NaN"
| "js_div (Fin a) (Fin b) = (if b = 0 then signed_inf a else Fin (a / b))"
| "js_div (Fin a) PosInf = Fin 0"
| "js_div (Fin a) NegInf = Fin 0"
| "js_div PosInf (Fin b) = (if b < 0 then NegInf else PosInf)"
| "js_div NegInf (Fin b) = (if b < 0 then PosInf else NegInf)"
| "js_div PosInf y = NaN"
| "js_div NegInf y = NaN"

text \<open>The relational operators; every comparison with \<open>NaN\<close> is false.\<close>

fun js_lt :: "jsnum \<Rightarrow> jsnum \<Rightarrow> bool" where
  "js_lt NaN y = False"
| "js_lt x NaN = False"
| "js_lt (Fin a) (Fin b) = (a < b)"
| "js_lt NegInf NegInf = False"
| "js_lt NegInf y = True"
| "js_lt x PosInf = (x \<noteq> PosInf)"
| "js_lt PosInf y = False"
| "js_lt (Fin a) NegInf = False"

fun js_ge :: "jsnum \<Rightarrow> jsnum \<Rightarrow> bool" where
  "js_ge NaN y = False"
| "js_ge x NaN = False"
| "js_ge x y = (\<not> js_lt x y)"

text \<open>
  \<open>Math.round\<close> gives the integer nearest to its argument, a tie going up;
  \<open>Math.ceil\<close> the least integer not below it. Both are exact on a double.
\<close>

fun Math_round :: "jsnum \<Rightarrow> jsnum" where
  "Math_round (Fin r) = Fin (of_int \<lfloor>r + 1 / 2\<rfloor>)"
| "Math_round x = x"

fun Math_ceil :: "jsnum \<Rightarrow> jsnum" where
  "Math_ceil (Fin r) = Fin (of_int \<lceil>r\<rceil>)"
| "Math_ceil x = x"

text \<open>
  Rounding to double precision, to nearest with ties to even: 53 significant
  bits, exponents from \<open>-1022\<close> (below which the spacing stays \<open>2^-1074\<close>) to
  \<open>1023\<close> (above which the result is infinite). \<open>exponent2 x\<close> is the \<open>e\<close> with
  \<open>2^e \<le> x < 2^(e+1)\<close>, for \<open>x > 0\<close>.
\<close>

definition exponent2 :: "rat \<Rightarrow> int" where
  "exponent2 x =
     (if 1 \<le> x then int (floorlog 2 (nat \<lfloor>x\<rfloor>)) - 1
      else - int (floorlog 2 (nat \<lceil>1 / x\<rceil> - 1)))"

definition pow2 :: "int \<Rightarrow> rat" where
  "pow2 e = (if 0 \<le> e then 2 ^ nat e else 1 / 2 ^ nat (- e))"

definition round_half_even :: "rat \<Rightarrow> int" where
  "round_half_even m =
     (let f = \<lfloor>m\<rfloor>; d = m - of_int f in
      if d < 1 / 2 then f else if 1 / 2 < d then f + 1 else if even f then f else f + 1)"

definition round_double :: "rat \<Rightarrow> jsnum" where
  "round_double x =
     (if x = 0 then Fin 0
      else
        (let e = max (exponent2 \<bar>x\<bar>) (- 1022);
             ulp = pow2 (e - 52);
             r = of_int (round_half_even (\<bar>x\<bar> / ulp)) * ulp
         in if 1023 \<le> e \<and> 2 ^ 1024 \<le> r then (if 0 < x then PosInf else NegInf)
            else Fin (if 0 < x then r else - r)))"

fun rounded :: "jsnum \<Rightarrow> jsnum" where
  "rounded (Fin r) = round_double r"
| "rounded x = x"

definition dbl_add :: "jsnum \<Rightarrow> jsnum \<Rightarrow> jsnum" where
  "dbl_add x y = rounded (js_add x y)"

definition dbl_sub :: "jsnum \<Rightarrow> jsnum \<Rightarrow> jsnum" where
  "dbl_sub x y = rounded (js_sub x y)"

definition dbl_mul :: "jsnum \<Rightarrow> jsnum \<Rightarrow> jsnum" where
  "dbl_mul x y = rounded (js_mul x y)"

definition dbl_div :: "jsnum \<Rightarrow> jsnum \<Rightarrow> jsnum" where
  "dbl_div x y = rounded (js_div x y)"

section \<open>Products (models/Product.js)\<close>

text \<open>
  A stored reference (an ObjectId) is modelled by the string its \<open>toString()\<close>
  yields, which is how the source compares references. Of the schema's fields the
  record keeps those that the operations below read. Stored numbers are doubles.
\<close>

type_synonym oid = string

record product =
  doc_id :: oid
  title :: string
  price :: rat
  originalPrice :: "rat option"
  category :: string
  condition :: string
  seller :: oid
  isAvailable :: bool
  createdAt :: int

text \<open>
  The virtual \<open>discountPercentage\<close>:
  \<^verbatim>\<open>if (!this.originalPrice) return 0;
  return Math.round(((this.originalPrice - this.price) / this.originalPrice) * 100);\<close>
  An unset \<open>originalPrice\<close> is \<open>None\<close>.
\<close>

definition discountPercentage :: "product \<Rightarrow> jsnum" where
  "discountPercentage p =
     (case originalPrice p of
        None \<Rightarrow> Fin 0
      | Some orig \<Rightarrow>
          if \<not> js_truthy (Fin orig) then Fin 0
          else Math_round
                 (dbl_mul (dbl_div (dbl_sub (Fin orig) (Fin (price p))) (Fin orig)) (Fin 100)))"

text \<open>
  The specification's reading of the same virtual: the value \<open>0\<close> exactly when no
  \<open>originalPrice\<close> is set, \<open>Math.round\<close> of the quotient times 100 in every other
  case.
\<close>

definition discountPercentage_spec :: "product \<Rightarrow> jsnum" where
  "discountPercentage_spec p =
     (case originalPrice p of
        None \<Rightarrow> Fin 0
      | Some orig \<Rightarrow>
          Math_round
            (dbl_mul (dbl_div (dbl_sub (Fin orig) (Fin (price p))) (Fin orig)) (Fin 100)))"

section \<open>Request fields and conversions\<close>

text \<open>
  A field of a JSON request body: absent, \<open>null\<close>, or a value of the type the
  interface documents for it (a number for a price or a quantity, a string for a
  message or an action). A body that carries a value of another JSON type in such
  a field is outside this model. Strings are ASCII.
\<close>

datatype 'a field = Undefined | Null | Val 'a

text \<open>\<open>!x\<close> on a numeric field.\<close>

fun num_falsy :: "jsnum field \<Rightarrow> bool" where
  "num_falsy (Val n) = (\<not> js_truthy n)"
| "num_falsy x = True"

text \<open>\<open>x || ''\<close> on a string field.\<close>

definition or_empty :: "string field \<Rightarrow> string" where
  "or_empty x = (case x of Val s \<Rightarrow> s | _ \<Rightarrow> [])"

text \<open>\<open>Number(x)\<close> on a numeric field: \<open>undefined\<close> gives \<open>NaN\<close>, \<open>null\<close> gives \<open>0\<close>.\<close>

fun Number :: "jsnum field \<Rightarrow> jsnum" where
  "Number Undefined = NaN"
| "Number Null = Fin 0"
| "Number (Val n) = n"

text \<open>
  \<open>parseInt\<close> converts its argument to a string and reads the integer at its
  start. For a number printed in plain decimal notation, which is the case for
  \<open>10^-6 \<le> |x| < 10^21\<close>, that integer is \<open>x\<close> truncated towards zero; a
  number printed in exponent notation (\<open>d.ddde+21\<close>, \<open>de-7\<close>) yields its first
  significant digit. \<open>Infinity\<close>, \<open>NaN\<close>, \<open>undefined\<close> and \<open>null\<close> print
  as words and yield \<open>NaN\<close>.
\<close>

definition toward_zero :: "rat \<Rightarrow> int" where
  "toward_zero x = (if 0 \<le> x then \<lfloor>x\<rfloor> else \<lceil>x\<rceil>)"

definition lead_digit :: "rat \<Rightarrow> int" where
  "lead_digit x =
     (if 1 \<le> x then \<lfloor>x\<rfloor> div 10 ^ (floorlog 10 (nat \<lfloor>x\<rfloor>) - 1)
      else \<lfloor>x * 10 ^ floorlog 10 (nat \<lceil>1 / x\<rceil> - 1)\<rfloor>)"

fun parseInt_num :: "jsnum \<Rightarrow> jsnum" where
  "parseInt_num (Fin x) =
     (if x = 0 then Fin 0
      else if 1 / 10 ^ 6 \<le> \<bar>x\<bar> \<and> \<bar>x\<bar> < 10 ^ 21 then Fin (of_int (toward_zero x))
      else if 0 < x then Fin (of_int (lead_digit x))
      else Fin (of_int (- lead_digit (- x))))"
| "parseInt_num x = NaN"

fun parseInt :: "jsnum field \<Rightarrow> jsnum" where
  "parseInt (Val n) = parseInt_num n"
| "parseInt x = NaN"

text \<open>
  \<open>parseInt\<close> on a string (a query parameter): leading white space is skipped,
  a sign is read, a prefix \<open>0x\<close> selects radix 16, and the longest run of digits
  is the value; no digit gives \<open>NaN\<close>.
\<close>

definition js_whitespace :: "char \<Rightarrow> bool" where
  "js_whitespace c = (c \<in> set [CHR '' '', CHR 0x09, CHR 0x0A, CHR 0x0B, CHR 0x0C, CHR 0x0D])"

definition digit_of :: "char \<Rightarrow> nat option" where
  "digit_of c =
     (let n = of_char c :: nat in
      if 48 \<le> n \<and> n \<le> 57 then Some (n - 48)
      else if 97 \<le> n \<and> n \<le> 102 then Some (n - 87)
      else if 65 \<le> n \<and> n \<le> 70 then Some (n - 55)
      else None)"

definition is_digit :: "nat \<Rightarrow> char \<Rightarrow> bool" where
  "is_digit radix c = (case digit_of c of None \<Rightarrow> False | Some d \<Rightarrow> d < radix)"

fun digits_value :: "nat \<Rightarrow> nat \<Rightarrow> string \<Rightarrow> nat" where
  "digits_value radix acc [] = acc"
| "digits_value radix acc (c # cs) =
     digits_value radix (acc * radix + (case digit_of c of None \<Rightarrow> 0 | Some d \<Rightarrow> d)) cs"

definition parse_radix :: "nat \<Rightarrow> bool \<Rightarrow> string \<Rightarrow> jsnum" where
  "parse_radix radix negative s =
     (let ds = takeWhile (is_digit radix) s in
      if ds = [] then NaN
      else if negative then Fin (- of_nat (digits_value radix 0 ds))
      else Fin (of_nat (digits_value radix 0 ds)))"

fun parse_unsigned :: "bool \<Rightarrow> string \<Rightarrow> jsnum" where
  "parse_unsigned negative (a # b # s) =
     (if a = CHR ''0'' \<and> (b = CHR ''x'' \<or> b = CHR ''X'') then parse_radix 16 negative s
      else parse_radix 10 negative (a # b # s))"
| "parse_unsigned negative s = parse_radix 10 negative s"

definition parseInt_str :: "string \<Rightarrow> jsnum" where
  "parseInt_str s =
     (case dropWhile js_whitespace s of
        [] \<Rightarrow> NaN
      | c # cs \<Rightarrow>
          if c = CHR ''-'' then parse_unsigned True cs
          else if c = CHR ''+'' then parse_unsigned False cs
          else parse_unsigned False (c # cs))"


text \<open>
  The string form of an ObjectId, which \<open>toString()\<close> yields, is 24 lower-case
  hexadecimal digits.
\<close>

definition isObjectId :: "string \<Rightarrow> bool" where
  "isObjectId s = (length s = 24 \<and> list_all (\<lambda>c. c \<in> set ''0123456789abcdef'') s)"

text \<open>
  Casting a string to an ObjectId, as the schema types \<open>ObjectId\<close> and
  \<open>findById\<close> do: 24 hexadecimal digits in either case denote the identifier
  with these digits, 12 characters denote the identifier with these bytes, and
  every other string fails the cast. The result is the identifier's string form.
\<close>

definition lower :: "char \<Rightarrow> char" where
  "lower c =
     (let n = of_char c :: nat in if 65 \<le> n \<and> n \<le> 90 then char_of (n + 32) else c)"

definition hex_char :: "nat \<Rightarrow> char" where
  "hex_char d = (if d < 10 then char_of (48 + d) else char_of (87 + d))"

definition hex_of_bytes :: "string \<Rightarrow> string" where
  "hex_of_bytes s =
     concat (map (\<lambda>c. [hex_char (of_char c div 16), hex_char (of_char c mod 16)]) s)"

definition castObjectId :: "string \<Rightarrow> oid option" where
  "castObjectId s =
     (if length s = 12 then Some (hex_of_bytes s)
      else if length s = 24 \<and> list_all (is_digit 16) s then Some (map lower s)
      else None)"

datatype error = CastError | ValidationError | DuplicateKey | TypeError | ItemNotFound

section \<open>Users: favorites and cart (models/User.js)\<close>

record cart_item =
  product :: oid
  quantity :: jsnum

record user =
  doc_id :: oid
  favorites :: "oid list"
  cart :: "cart_item list"

text \<open>
  \<open>this.save()\<close> validates the document against the schema before it is written:
  every cart quantity must be a number that is at least \<open>1\<close> (\<open>min: 1\<close>). A
  rejected save leaves the stored document as it was.
\<close>

definition valid_cart_item :: "cart_item \<Rightarrow> bool" where
  "valid_cart_item i = js_ge (quantity i) (Fin 1)"

definition validate_user :: "user \<Rightarrow> bool" where
  "validate_user u = list_all valid_cart_item (cart u)"

definition User_save :: "user \<Rightarrow> error + user" where
  "User_save u = (if validate_user u then Inr u else Inl ValidationError)"

text \<open>
  \<^verbatim>\<open>if (!this.favorites.includes(productId)) { this.favorites.push(productId); }
  return this.save();\<close>
  \<open>includes\<close> compares the given string with the string form of each element;
  \<open>push\<close> casts the string to an ObjectId and throws if it cannot.
\<close>

definition User_addToFavorites :: "user \<Rightarrow> string \<Rightarrow> error + user" where
  "User_addToFavorites u productId =
     (if productId \<notin> set (favorites u)
      then (case castObjectId productId of
              None \<Rightarrow> Inl CastError
            | Some i \<Rightarrow> User_save (u\<lparr>favorites := favorites u @ [i]\<rparr>))
      else User_save u)"

text \<open>
  \<^verbatim>\<open>this.favorites = this.favorites.filter(id => id.toString() !== productId.toString());
  return this.save();\<close>
\<close>

definition User_removeFromFavorites :: "user \<Rightarrow> string \<Rightarrow> error + user" where
  "User_removeFromFavorites u productId =
     User_save (u\<lparr>favorites := filter (\<lambda>i. i \<noteq> productId) (favorites u)\<rparr>)"

text \<open>
  \<open>this.cart.find(...)\<close> yields the first entry of the product, and the
  assignment through it changes that entry in place.
\<close>

fun modify_first :: "('a \<Rightarrow> bool) \<Rightarrow> ('a \<Rightarrow> 'a) \<Rightarrow> 'a list \<Rightarrow> 'a list" where
  "modify_first P f [] = []"
| "modify_first P f (x # xs) = (if P x then f x # xs else x # modify_first P f xs)"

text \<open>
  \<^verbatim>\<open>addToCart = function(productId, quantity = 1) {
    const cartItem = this.cart.find(item => item.product.toString() === productId.toString());
    if (cartItem) { cartItem.quantity += quantity; }
    else { this.cart.push({ product: productId, quantity }); }
    return this.save(); }\<close>
  An omitted \<open>quantity\<close> is \<open>None\<close>. The pushed \<open>product\<close> is cast to an
  ObjectId; a string that cannot be cast fails the save.
\<close>

definition User_addToCart :: "user \<Rightarrow> string \<Rightarrow> jsnum option \<Rightarrow> error + user" where
  "User_addToCart u productId qty =
     (let q = (case qty of None \<Rightarrow> Fin 1 | Some n \<Rightarrow> n) in
      case find (\<lambda>i. cart_item.product i = productId) (cart u) of
        Some cartItem \<Rightarrow>
          User_save (u\<lparr>cart := modify_first (\<lambda>i. cart_item.product i = productId)
                                   (\<lambda>i. i\<lparr>quantity := js_add (quantity i) q\<rparr>) (cart u)\<rparr>)
      | None \<Rightarrow>
          (case castObjectId productId of
             None \<Rightarrow> Inl CastError
           | Some i \<Rightarrow> User_save (u\<lparr>cart := cart u @ [\<lparr>product = i, quantity = q\<rparr>]\<rparr>)))"

text \<open>
  \<^verbatim>\<open>updateCartItem = function(productId, quantity) {
    const cartItem = this.cart.find(item => item.product.toString() === productId.toString());
    if (cartItem) { cartItem.quantity = quantity; return this.save(); }
    return Promise.reject(new Error('Item not found in cart')); }\<close>
\<close>

definition User_updateCartItem :: "user \<Rightarrow> string \<Rightarrow> jsnum \<Rightarrow> error + user" where
  "User_updateCartItem u productId q =
     (case find (\<lambda>i. cart_item.product i = productId) (cart u) of
        Some cartItem \<Rightarrow>
          User_save (u\<lparr>cart := modify_first (\<lambda>i. cart_item.product i = productId)
                                   (\<lambda>i. i\<lparr>quantity := q\<rparr>) (cart u)\<rparr>)
      | None \<Rightarrow> Inl ItemNotFound)"

definition User_removeFromCart :: "user \<Rightarrow> string \<Rightarrow> error + user" where
  "User_removeFromCart u productId =
     User_save (u\<lparr>cart := filter (\<lambda>i. cart_item.product i \<noteq> productId) (cart u)\<rparr>)"

definition User_clearCart :: "user \<Rightarrow> error + user" where
  "User_clearCart u = User_save (u\<lparr>cart := []\<rparr>)"

text \<open>The cart's invariant: no two entries have the same product.\<close>

definition cart_unique :: "cart_item list \<Rightarrow> bool" where
  "cart_unique c = distinct (map cart_item.product c)"

section \<open>Offers (models/Offer.js)\<close>

datatype offer_status = pending | accepted | rejected | countered | expired

record counter_offer =
  price :: jsnum
  message :: string

record offer =
  doc_id :: oid
  product :: oid
  buyer :: oid
  seller :: oid
  offerPrice :: jsnum
  message :: string
  status :: offer_status
  counterOffer :: "counter_offer option"
  expiresAt :: int
  createdAt :: int

text \<open>
  The schema's validators: \<open>offerPrice\<close> is a number with \<open>min: 1\<close>, \<open>message\<close>
  has \<open>maxlength: 500\<close>, and a counter price must be a number.
\<close>

definition validate_offer :: "offer \<Rightarrow> bool" where
  "validate_offer ofr =
     (js_ge (offerPrice ofr) (Fin 1) \<and> length (offer.message ofr) \<le> 500 \<and>
      (case counterOffer ofr of None \<Rightarrow> True | Some c \<Rightarrow> counter_offer.price c \<noteq> NaN))"



section \<open>The data store and responses\<close>

record store =
  products :: "product list"
  users :: "oid \<rightharpoonup> user"
  offers :: "offer list"

datatype body =
    Message string
  | FavoritesBody "oid list"
  | CartBody "cart_item list" jsnum
  | OfferBody offer
  | ProductsBody "product list" nat jsnum jsnum

record response =
  status :: nat
  body :: body

definition reply :: "nat \<Rightarrow> string \<Rightarrow> response" where
  "reply code msg = \<lparr>status = code, body = Message msg\<rparr>"

definition server_error :: response where
  "server_error = reply 500 ''Server error''"

text \<open>\<open>Model.findById\<close>: the identifier is cast first, and a failed cast throws.\<close>

definition Product_findById :: "product list \<Rightarrow> string \<Rightarrow> error + product option" where
  "Product_findById ps s =
     (case castObjectId s of
        None \<Rightarrow> Inl CastError
      | Some i \<Rightarrow> Inr (find (\<lambda>p. product.doc_id p = i) ps))"

definition Offer_findById :: "offer list \<Rightarrow> string \<Rightarrow> error + offer option" where
  "Offer_findById os s =
     (case castObjectId s of
        None \<Rightarrow> Inl CastError
      | Some i \<Rightarrow> Inr (find (\<lambda>ofr. offer.doc_id ofr = i) os))"


definition Offer_update :: "offer list \<Rightarrow> offer \<Rightarrow> error + offer list" where
  "Offer_update os ofr =
     (if \<not> validate_offer ofr then Inl ValidationError
      else Inr (map (\<lambda>x. if offer.doc_id x = offer.doc_id ofr then ofr else x) os))"

section \<open>User controller (controllers/user.controller.js)\<close>

text \<open>
  A handler takes the store, the identifier of the authenticated user
  (\<open>req.dbUser._id\<close>, set by \<open>verifyToken\<close>) and the request's parameters, and
  returns the response with the store it leaves. Every exception ends in the
  handler's \<open>catch\<close> branch.
\<close>

text \<open>
  The cart total: \<^verbatim>\<open>cart.reduce((sum, item) => sum + (item.product.price * item.quantity), 0)\<close>
  over the populated cart. An entry whose product no longer exists is populated
  with \<open>null\<close>, and reading its price throws.
\<close>

fun cart_total :: "product list \<Rightarrow> jsnum \<Rightarrow> cart_item list \<Rightarrow> error + jsnum" where
  "cart_total ps acc [] = Inr acc"
| "cart_total ps acc (i # rest) =
     (case find (\<lambda>p. product.doc_id p = cart_item.product i) ps of
        None \<Rightarrow> Inl TypeError
      | Some p \<Rightarrow>
          cart_total ps (dbl_add acc (dbl_mul (Fin (product.price p)) (quantity i))) rest)"

definition cart_response :: "store \<Rightarrow> oid \<Rightarrow> response" where
  "cart_response st uid =
     (case users st uid of
        None \<Rightarrow> server_error
      | Some u \<Rightarrow>
          (case cart_total (products st) (Fin 0) (cart u) of
             Inl e \<Rightarrow> server_error
           | Inr t \<Rightarrow> \<lparr>status = 200, body = CartBody (cart u) t\<rparr>))"

definition favorites_response :: "store \<Rightarrow> oid \<Rightarrow> response" where
  "favorites_response st uid =
     (case users st uid of
        None \<Rightarrow> server_error
      | Some u \<Rightarrow>
          \<lparr>status = 200,
           body = FavoritesBody
             (filter (\<lambda>i. find (\<lambda>p. product.doc_id p = i) (products st) \<noteq> None) (favorites u))\<rparr>)"

definition addToFavorites :: "store \<Rightarrow> oid \<Rightarrow> string \<Rightarrow> response \<times> store" where
  "addToFavorites st uid productId =
     (case Product_findById (products st) productId of
        Inl e \<Rightarrow> (server_error, st)
      | Inr None \<Rightarrow> (reply 404 ''Product not found'', st)
      | Inr (Some p) \<Rightarrow>
          (case users st uid of
             None \<Rightarrow> (server_error, st)
           | Some u \<Rightarrow>
               (case User_addToFavorites u productId of
                  Inl e \<Rightarrow> (server_error, st)
                | Inr u' \<Rightarrow>
                    (let st' = st\<lparr>users := (users st)(uid \<mapsto> u')\<rparr>
                     in (favorites_response st' uid, st')))))"

definition removeFromFavorites :: "store \<Rightarrow> oid \<Rightarrow> string \<Rightarrow> response \<times> store" where
  "removeFromFavorites st uid productId =
     (case users st uid of
        None \<Rightarrow> (server_error, st)
      | Some u \<Rightarrow>
          (case User_removeFromFavorites u productId of
             Inl e \<Rightarrow> (server_error, st)
           | Inr u' \<Rightarrow>
               (let st' = st\<lparr>users := (users st)(uid \<mapsto> u')\<rparr>
                in (favorites_response st' uid, st'))))"

text \<open>
  \<open>addToCart\<close>: \<^verbatim>\<open>const { quantity = 1 } = req.body;\<close> replaces only an absent
  quantity; the method is called with \<open>parseInt(quantity)\<close>.
\<close>

definition addToCart :: "store \<Rightarrow> oid \<Rightarrow> string \<Rightarrow> jsnum field \<Rightarrow> response \<times> store" where
  "addToCart st uid productId qty_field =
     (let qty = (case qty_field of Undefined \<Rightarrow> Val (Fin 1) | x \<Rightarrow> x) in
      case Product_findById (products st) productId of
        Inl e \<Rightarrow> (server_error, st)
      | Inr None \<Rightarrow> (reply 404 ''Product not found'', st)
      | Inr (Some p) \<Rightarrow>
          if \<not> isAvailable p then (reply 400 ''Product is not available'', st)
          else
            (case users st uid of
               None \<Rightarrow> (server_error, st)
             | Some u \<Rightarrow>
                 (case User_addToCart u productId (Some (parseInt qty)) of
                    Inl e \<Rightarrow> (server_error, st)
                  | Inr u' \<Rightarrow>
                      (let st' = st\<lparr>users := (users st)(uid \<mapsto> u')\<rparr>
                       in (cart_response st' uid, st')))))"

text \<open>
  \<open>updateCartItem\<close>: the guard is \<^verbatim>\<open>!quantity || quantity < 1\<close>; the rejection
  \<open>'Item not found in cart'\<close> is answered with 404, every other one with 500.
\<close>

definition updateCartItem :: "store \<Rightarrow> oid \<Rightarrow> string \<Rightarrow> jsnum field \<Rightarrow> response \<times> store" where
  "updateCartItem st uid productId qty =
     (if num_falsy qty \<or> js_lt (Number qty) (Fin 1)
      then (reply 400 ''Quantity must be at least 1'', st)
      else
        (case users st uid of
           None \<Rightarrow> (server_error, st)
         | Some u \<Rightarrow>
             (case User_updateCartItem u productId (parseInt qty) of
                Inl ItemNotFound \<Rightarrow> (reply 404 ''Item not found in cart'', st)
              | Inl e \<Rightarrow> (server_error, st)
              | Inr u' \<Rightarrow>
                  (let st' = st\<lparr>users := (users st)(uid \<mapsto> u')\<rparr>
                   in (cart_response st' uid, st')))))"

definition removeFromCart :: "store \<Rightarrow> oid \<Rightarrow> string \<Rightarrow> response \<times> store" where
  "removeFromCart st uid productId =
     (case users st uid of
        None \<Rightarrow> (server_error, st)
      | Some u \<Rightarrow>
          (case User_removeFromCart u productId of
             Inl e \<Rightarrow> (server_error, st)
           | Inr u' \<Rightarrow>
               (let st' = st\<lparr>users := (users st)(uid \<mapsto> u')\<rparr>
                in (cart_response st' uid, st'))))"

definition clearCart :: "store \<Rightarrow> oid \<Rightarrow> response \<times> store" where
  "clearCart st uid =
     (case users st uid of
        None \<Rightarrow> (server_error, st)
      | Some u \<Rightarrow>
          (case User_clearCart u of
             Inl e \<Rightarrow> (server_error, st)
           | Inr u' \<Rightarrow>
               (\<lparr>status = 200, body = CartBody [] (Fin 0)\<rparr>,
                st\<lparr>users := (users st)(uid \<mapsto> u')\<rparr>)))"

section \<open>User routes (routes/user.routes.js)\<close>

text \<open>
  The router tries its routes in the order of their registration and runs the
  first whose method and path match; no handler of these routes passes control
  on to a later route. A path is given by its segments below the mount point
  \<open>/api/users\<close>. A literal segment matches without regard to case, a parameter
  matches any non-empty segment and is bound to it.
\<close>

datatype http_method = GET | POST | PUT | DELETE

datatype segment = Lit string | Param string

datatype user_handler =
    GetCurrentUser | UpdateProfile
  | GetFavorites | AddToFavorites | RemoveFromFavorites
  | GetCart | AddToCart | UpdateCartItem | RemoveFromCart | ClearCart
  | GetUserListings | GetReceivedOffers | GetSentOffers
  | GetAllUsers | GetUserById | UpdateUser | DeleteUser

definition user_routes :: "(http_method \<times> segment list \<times> user_handler) list" where
  "user_routes =
     [(GET, [Lit ''me''], GetCurrentUser),
      (PUT, [Lit ''me''], UpdateProfile),
      (GET, [Lit ''favorites''], GetFavorites),
      (POST, [Lit ''favorites'', Param ''productId''], AddToFavorites),
      (DELETE, [Lit ''favorites'', Param ''productId''], RemoveFromFavorites),
      (GET, [Lit ''cart''], GetCart),
      (POST, [Lit ''cart'', Param ''productId''], AddToCart),
      (PUT, [Lit ''cart'', Param ''productId''], UpdateCartItem),
      (DELETE, [Lit ''cart'', Param ''productId''], RemoveFromCart),
      (PUT, [Lit ''cart'', Lit ''clear''], ClearCart),
      (GET, [Lit ''listings''], GetUserListings),
      (GET, [Lit ''offers'', Lit ''received''], GetReceivedOffers),
      (GET, [Lit ''offers'', Lit ''sent''], GetSentOffers),
      (GET, [], GetAllUsers),
      (GET, [Param ''id''], GetUserById),
      (PUT, [Param ''id''], UpdateUser),
      (DELETE, [Param ''id''], DeleteUser)]"

fun match_path :: "segment list \<Rightarrow> string list \<Rightarrow> (string \<times> string) list option" where
  "match_path [] [] = Some []"
| "match_path (Lit l # pat) (s # segs) =
     (if map lower l = map lower s then match_path pat segs else None)"
| "match_path (Param n # pat) (s # segs) =
     (if s = [] then None
      else (case match_path pat segs of None \<Rightarrow> None | Some ps \<Rightarrow> Some ((n, s) # ps)))"
| "match_path pat segs = None"

fun dispatch ::
  "(http_method \<times> segment list \<times> 'h) list \<Rightarrow> http_method \<Rightarrow> string list \<Rightarrow>
   ('h \<times> (string \<times> string) list) option" where
  "dispatch [] m path = None"
| "dispatch ((m', pat, h) # routes) m path =
     (if m' = m
      then (case match_path pat path of
              Some ps \<Rightarrow> Some (h, ps)
            | None \<Rightarrow> dispatch routes m path)
      else dispatch routes m path)"

text \<open>
  A request to the cart routes, from dispatch to the handler's response. The
  body's \<open>quantity\<close> is the last argument. \<open>None\<close> stands for a request that no
  route matches or whose handler is not one of the cart's.
\<close>

definition cart_request ::
  "store \<Rightarrow> oid \<Rightarrow> http_method \<Rightarrow> string list \<Rightarrow> jsnum field \<Rightarrow> (response \<times> store) option" where
  "cart_request st uid m path qty =
     (case dispatch user_routes m path of
        None \<Rightarrow> None
      | Some (h, ps) \<Rightarrow>
          (case (h, map_of ps ''productId'') of
             (GetCart, x) \<Rightarrow> Some (cart_response st uid, st)
           | (AddToCart, Some productId) \<Rightarrow> Some (addToCart st uid productId qty)
           | (UpdateCartItem, Some productId) \<Rightarrow> Some (updateCartItem st uid productId qty)
           | (RemoveFromCart, Some productId) \<Rightarrow> Some (removeFromCart st uid productId)
           | (ClearCart, x) \<Rightarrow> Some (clearCart st uid)
           | x \<Rightarrow> None))"

section \<open>Offer controller (controllers/offer.controller.js)\<close>



text \<open>
  \<open>respondToOffer\<close>. The offer is read with its product populated; if the
  product no longer exists, reading \<open>offer.product.seller\<close> throws.
\<close>

definition respondToOffer ::
  "store \<Rightarrow> oid \<Rightarrow> string \<Rightarrow> string field \<Rightarrow> jsnum field \<Rightarrow> string field \<Rightarrow> response \<times> store" where
  "respondToOffer st uid offerId action counterPrice counterMessage =
     (case Offer_findById (offers st) offerId of
        Inl e \<Rightarrow> (server_error, st)
      | Inr None \<Rightarrow> (reply 404 ''Offer not found'', st)
      | Inr (Some ofr) \<Rightarrow>
          (case find (\<lambda>p. product.doc_id p = offer.product ofr) (products st) of
             None \<Rightarrow> (server_error, st)
           | Some p \<Rightarrow>
               if product.seller p \<noteq> uid
               then (reply 403 ''Not authorized to respond to this offer'', st)
               else
                 (let changed =
                        (if action = Val ''accept'' then Inr (ofr\<lparr>offer.status := accepted\<rparr>)
                         else if action = Val ''reject'' then Inr (ofr\<lparr>offer.status := rejected\<rparr>)
                         else if action = Val ''counter'' then
                           (if num_falsy counterPrice
                            then Inl (reply 400 ''Counter offer price is required'')
                            else Inr (ofr\<lparr>offer.status := countered,
                                          counterOffer := Some \<lparr>counter_offer.price = Number counterPrice,
                                            counter_offer.message = or_empty counterMessage\<rparr>\<rparr>))
                         else Inl (reply 400 ''Invalid action''))
                  in case changed of
                       Inl r \<Rightarrow> (r, st)
                     | Inr ofr' \<Rightarrow>
                         (case Offer_update (offers st) ofr' of
                            Inl e \<Rightarrow> (server_error, st)
                          | Inr os \<Rightarrow>
                              (\<lparr>status = 200, body = OfferBody ofr'\<rparr>,
                               st\<lparr>offers := os\<rparr>)))))"

text \<open>\<open>respondToCounterOffer\<close>: the buyer's answer to a counter offer.\<close>

definition respondToCounterOffer ::
  "store \<Rightarrow> oid \<Rightarrow> string \<Rightarrow> string field \<Rightarrow> response \<times> store" where
  "respondToCounterOffer st uid offerId action =
     (case Offer_findById (offers st) offerId of
        Inl e \<Rightarrow> (server_error, st)
      | Inr None \<Rightarrow> (reply 404 ''Offer not found'', st)
      | Inr (Some ofr) \<Rightarrow>
          if buyer ofr \<noteq> uid
          then (reply 403 ''Not authorized to respond to this counter offer'', st)
          else if offer.status ofr \<noteq> countered
          then (reply 400 ''This offer does not have a counter offer to respond to'', st)
          else
            (let changed =
                   (if action = Val ''accept'' then Inr (ofr\<lparr>offer.status := accepted\<rparr>)
                    else if action = Val ''reject'' then Inr (ofr\<lparr>offer.status := rejected\<rparr>)
                    else Inl (reply 400 ''Invalid action''))
             in case changed of
                  Inl r \<Rightarrow> (r, st)
                | Inr ofr' \<Rightarrow>
                    (case Offer_update (offers st) ofr' of
                       Inl e \<Rightarrow> (server_error, st)
                     | Inr os \<Rightarrow>
                         (\<lparr>status = 200, body = OfferBody ofr'\<rparr>, st\<lparr>offers := os\<rparr>))))"

section \<open>Product listing (controllers/product.controller.js)\<close>

text \<open>
  The parameters of the query string; each is absent or a string.
\<close>

record query =
  category :: "string option"
  condition :: "string option"
  priceMin :: "string option"
  priceMax :: "string option"
  sort :: "string option"
  page :: "string option"
  limit :: "string option"
  seller :: "string option"
  search :: "string option"

definition given :: "string option \<Rightarrow> bool" where
  "given x = (case x of None \<Rightarrow> False | Some s \<Rightarrow> s \<noteq> [])"

datatype sort_option = CreatedAsc | PriceAsc | PriceDesc | CreatedDesc

text \<open>The \<open>switch (sort)\<close>; an absent \<open>sort\<close> is \<open>'newest'\<close>.\<close>

definition sortOption :: "string option \<Rightarrow> sort_option" where
  "sortOption s =
     (let key = (case s of None \<Rightarrow> ''newest'' | Some x \<Rightarrow> x) in
      if key = ''oldest'' then CreatedAsc
      else if key = ''price_low'' then PriceAsc
      else if key = ''price_high'' then PriceDesc
      else CreatedDesc)"

fun apply_sort :: "sort_option \<Rightarrow> product list \<Rightarrow> product list" where
  "apply_sort CreatedAsc ps = sort_key product.createdAt ps"
| "apply_sort PriceAsc ps = sort_key product.price ps"
| "apply_sort PriceDesc ps = sort_key (\<lambda>p. - product.price p) ps"
| "apply_sort CreatedDesc ps = sort_key (\<lambda>p. - product.createdAt p) ps"

text \<open>
  The filter built from the parameters. \<open>to_number\<close> is \<open>Number\<close> on strings and
  \<open>text_match\<close> the store's text index; neither is code of this repository, and
  both are parameters. Casting the filter fails for a seller that cannot be cast
  to an ObjectId and for a price bound that is \<open>NaN\<close>.
\<close>

definition query_cast_fails :: "(string \<Rightarrow> jsnum) \<Rightarrow> query \<Rightarrow> bool" where
  "query_cast_fails to_number q =
     ((given (query.seller q) \<and> castObjectId (the (query.seller q)) = None) \<or>
      (given (priceMin q) \<and> to_number (the (priceMin q)) = NaN) \<or>
      (given (priceMax q) \<and> to_number (the (priceMax q)) = NaN))"

definition matches ::
  "(string \<Rightarrow> jsnum) \<Rightarrow> (string \<Rightarrow> product \<Rightarrow> bool) \<Rightarrow> query \<Rightarrow> product \<Rightarrow> bool" where
  "matches to_number text_match q p =
     ((given (query.category q) \<longrightarrow> Some (product.category p) = query.category q) \<and>
      (given (query.condition q) \<longrightarrow> Some (product.condition p) = query.condition q) \<and>
      (given (query.seller q) \<longrightarrow>
         Some (product.seller p) = castObjectId (the (query.seller q))) \<and>
      (given (priceMin q) \<longrightarrow> js_ge (Fin (product.price p)) (to_number (the (priceMin q)))) \<and>
      (given (priceMax q) \<longrightarrow> js_ge (to_number (the (priceMax q))) (Fin (product.price p))) \<and>
      (given (search q) \<longrightarrow> text_match (the (search q)) p))"

text \<open>
  \<open>.skip(skip).limit(limitNum)\<close> as the store runs it: a skip or limit that is
  no number, and a negative skip, are refused; a limit of \<open>0\<close> is no limit, and a
  negative limit counts as its absolute value.
\<close>

fun skip_limit :: "jsnum \<Rightarrow> jsnum \<Rightarrow> 'a list \<Rightarrow> error + 'a list" where
  "skip_limit (Fin s) (Fin l) xs =
     (if s < 0 then Inl CastError
      else if l = 0 then Inr (drop (nat \<lfloor>s\<rfloor>) xs)
      else Inr (take (nat \<lfloor>\<bar>l\<bar>\<rfloor>) (drop (nat \<lfloor>s\<rfloor>) xs)))"
| "skip_limit s l xs = Inl CastError"

text \<open>
  \<open>getProducts\<close>: \<^verbatim>\<open>page = 1, limit = 12\<close> replace absent parameters;
  \<^verbatim>\<open>skip = (pageNum - 1) * limitNum\<close>; \<^verbatim>\<open>pages: Math.ceil(total / limitNum)\<close>.
\<close>

definition pageNum :: "query \<Rightarrow> jsnum" where
  "pageNum q = (case page q of None \<Rightarrow> parseInt_num (Fin 1) | Some s \<Rightarrow> parseInt_str s)"

definition limitNum :: "query \<Rightarrow> jsnum" where
  "limitNum q = (case limit q of None \<Rightarrow> parseInt_num (Fin 12) | Some s \<Rightarrow> parseInt_str s)"

text \<open>
  The decimal numeral of a natural number, as a request writes a page number or a
  limit in the query string.
\<close>

function decimal :: "nat \<Rightarrow> string" where
  "decimal n =
     (if n < 10 then [char_of (48 + n)]
      else decimal (n div 10) @ [char_of (48 + n mod 10)])"
  by pat_completeness auto
termination
  by (relation "measure id") auto

declare decimal.simps [simp del]

definition getProducts ::
  "(string \<Rightarrow> jsnum) \<Rightarrow> (string \<Rightarrow> product \<Rightarrow> bool) \<Rightarrow> store \<Rightarrow> query \<Rightarrow> response" where
  "getProducts to_number text_match st q =
     (let skip = js_mul (js_sub (pageNum q) (Fin 1)) (limitNum q)
      in if query_cast_fails to_number q then server_error
         else
           (let found = filter (matches to_number text_match q) (products st) in
            case skip_limit skip (limitNum q) (apply_sort (sortOption (query.sort q)) found) of
              Inl e \<Rightarrow> server_error
            | Inr ps \<Rightarrow>
                \<lparr>status = 200,
                 body = ProductsBody ps (length found) (pageNum q)
                          (Math_ceil (js_div (Fin (of_nat (length found))) (limitNum q)))\<rparr>))"

section \<open>Sample data\<close>

definition shoes_id :: oid where "shoes_id = ''5f1a2b3c4d5e6f7a8b9c0d01''"
definition bob_id :: oid where "bob_id = ''5f1a2b3c4d5e6f7a8b9c0d02''"
definition ann_id :: oid where "ann_id = ''5f1a2b3c4d5e6f7a8b9c0d04''"
definition offer_id :: oid where "offer_id = ''5f1a2b3c4d5e6f7a8b9c0d05''"

definition free_shoes :: product where
  "free_shoes = \<lparr>product.doc_id = ''5f1a2b3c4d5e6f7a8b9c0d01'', product.title = ''Shoes'', product.price = 20,
     originalPrice = Some 0, product.category = ''Footwear'', product.condition = ''Good'',
     product.seller = ''5f1a2b3c4d5e6f7a8b9c0d02'', isAvailable = True, product.createdAt = 0\<rparr>"

definition sale_shoes :: product where
  "sale_shoes = \<lparr>product.doc_id = ''5f1a2b3c4d5e6f7a8b9c0d03'', product.title = ''Boots'', product.price = 45,
     originalPrice = Some 80, product.category = ''Footwear'', product.condition = ''Good'',
     product.seller = ''5f1a2b3c4d5e6f7a8b9c0d02'', isAvailable = True, product.createdAt = 0\<rparr>"

definition shoes :: product where
  "shoes = \<lparr>product.doc_id = shoes_id, product.title = ''Shoes'', product.price = 100,
     originalPrice = None, product.category = ''Footwear'', product.condition = ''Good'',
     product.seller = bob_id, isAvailable = True, product.createdAt = 0\<rparr>"

definition ann :: user where
  "ann = \<lparr>user.doc_id = ann_id, favorites = [shoes_id],
     cart = [\<lparr>cart_item.product = shoes_id, quantity = Fin 5\<rparr>]\<rparr>"

definition shop :: store where
  "shop = \<lparr>products = [shoes], users = [ann_id \<mapsto> ann], offers = []\<rparr>"

definition SHOES_ID :: string where "SHOES_ID = ''5F1A2B3C4D5E6F7A8B9C0D01''"

definition marked_down :: product where
  "marked_down = \<lparr>product.doc_id = ''5f1a2b3c4d5e6f7a8b9c0d06'', product.title = ''Scarf'',
     product.price = 17, originalPrice = Some 40, product.category = ''Accessory'',
     product.condition = ''Good'', product.seller = ''5f1a2b3c4d5e6f7a8b9c0d02'',
     isAvailable = True, product.createdAt = 0\<rparr>"



definition ann_offer :: offer where
  "ann_offer = \<lparr>offer.doc_id = offer_id, offer.product = shoes_id, buyer = ann_id,
     offer.seller = bob_id, offerPrice = Fin 50, offer.message = [], offer.status = pending,
     counterOffer = None, expiresAt = 172800000, offer.createdAt = 0\<rparr>"

definition settled_market :: store where
  "settled_market = shop\<lparr>offers := [ann_offer\<lparr>offer.status := accepted\<rparr>]\<rparr>"

definition countered_offer :: offer where
  "countered_offer = ann_offer\<lparr>offer.status := countered,
     counterOffer := Some \<lparr>counter_offer.price = Fin 70, counter_offer.message = []\<rparr>\<rparr>"

definition countered_market :: store where
  "countered_market = shop\<lparr>offers := [countered_offer]\<rparr>"

definition footwear :: "oid \<Rightarrow> rat \<Rightarrow> product" where
  "footwear i amount =
     \<lparr>product.doc_id = i, product.title = ''Pair'', product.price = amount,
      originalPrice = None, product.category = ''Footwear'', product.condition = ''Good'',
      product.seller = bob_id, isAvailable = True, product.createdAt = 0\<rparr>"

definition handbag :: product where
  "handbag =
     \<lparr>product.doc_id = ''5f1a2b3c4d5e6f7a8b9c0d15'', product.title = ''Bag'', product.price = 1,
      originalPrice = None, product.category = ''Bag'', product.condition = ''New'',
      product.seller = bob_id, isAvailable = True, product.createdAt = 0\<rparr>"

definition catalog :: store where
  "catalog =
     \<lparr>products = [footwear ''5f1a2b3c4d5e6f7a8b9c0d11'' 10, footwear ''5f1a2b3c4d5e6f7a8b9c0d12'' 40,
                  handbag, footwear ''5f1a2b3c4d5e6f7a8b9c0d13'' 25,
                  footwear ''5f1a2b3c4d5e6f7a8b9c0d14'' 5],
      users = Map.empty, offers = []\<rparr>"

definition footwear_query :: query where
  "footwear_query =
     \<lparr>query.category = Some ''Footwear'', query.condition = None, priceMin = None,
      priceMax = None, query.sort = Some ''price_low'', page = Some ''1'', limit = Some ''2'',
      query.seller = None, search = None\<rparr>"

section \<open>Auxiliary lemmas\<close>

lemma find_product_None:
  "(find (\<lambda>i. cart_item.product i = k) xs = None) = (k \<notin> cart_item.product ` set xs)"
  by (induction xs) auto


lemma ids_valid [simp]: "isObjectId shoes_id" "isObjectId bob_id" "isObjectId ann_id" "isObjectId offer_id"
  by (simp_all add: isObjectId_def shoes_id_def bob_id_def ann_id_def offer_id_def)

lemma ids_distinct [simp]:
  "shoes_id \<noteq> bob_id" "bob_id \<noteq> shoes_id" "shoes_id \<noteq> ann_id" "ann_id \<noteq> shoes_id"
  "bob_id \<noteq> ann_id" "ann_id \<noteq> bob_id"
  by (simp_all add: shoes_id_def bob_id_def ann_id_def)

lemma cast_ids [simp]:
  "castObjectId shoes_id = Some shoes_id" "castObjectId offer_id = Some offer_id"
  "castObjectId SHOES_ID = Some shoes_id"
  by code_simp+








lemma User_updateCartItem_absent:
  assumes "k \<notin> cart_item.product ` set (cart u)"
  shows "User_updateCartItem u k q = Inl ItemNotFound"
proof -
  from assms have "find (\<lambda>i. cart_item.product i = k) (cart u) = None"
    by (simp add: find_product_None)
  then show ?thesis by (simp add: User_updateCartItem_def)
qed






lemma isObjectId_clear: "\<not> isObjectId ''clear''"
  by (simp add: isObjectId_def)

lemma path_cases:
  obtains "path = []" | a where "path = [a]" | a b where "path = [a, b]"
  | a b c r where "path = a # b # c # r"
  by (cases path rule: list.exhaust; (metis list.exhaust)?)

lemma clearCart_unreachable: "dispatch user_routes m path \<noteq> Some (ClearCart, ps)"
proof (cases path rule: path_cases)
  case 1
  then show ?thesis by (cases m) (simp_all add: user_routes_def)
next
  case (2 a)
  then show ?thesis by (cases m) (simp_all add: user_routes_def)
next
  case (3 a b)
  then show ?thesis by (cases m) (auto simp: user_routes_def)
next
  case (4 a b c r)
  then show ?thesis by (cases m) (simp_all add: user_routes_def)
qed

lemma put_cart_clear:
  "dispatch user_routes PUT [''cart'', ''clear''] = Some (UpdateCartItem, [(''productId'', ''clear'')])"
  by (simp add: user_routes_def lower_def)

lemma updateCartItem_clear:
  assumes "users st uid = Some u" and "list_all (\<lambda>i. isObjectId (cart_item.product i)) (cart u)"
  shows "\<exists>r. updateCartItem st uid ''clear'' qty = (r, st) \<and> response.status r \<in> {400, 404}"
proof -
  have "''clear'' \<notin> cart_item.product ` set (cart u)"
    using assms(2) isObjectId_clear by (auto simp: list_all_iff)
  then have "User_updateCartItem u ''clear'' q = Inl ItemNotFound" for q
    by (rule User_updateCartItem_absent)
  with assms(1) show ?thesis
    by (auto simp: updateCartItem_def reply_def)
qed



lemma validate_offer_status [simp]:
  "validate_offer (ofr\<lparr>offer.status := s\<rparr>) = validate_offer ofr"
  by (simp add: validate_offer_def)

lemma digit_char [simp]:
  assumes "d < 10"
  shows "digit_of (char_of (48 + d)) = Some d"
  using assms by (simp add: digit_of_def Let_def)

lemma digit_char_is_digit [simp]: "(d::nat) < 10 \<Longrightarrow> is_digit 10 (char_of (48 + d))"
  by (simp add: is_digit_def)

lemma is_digit_facts:
  assumes "is_digit 10 c"
  shows "\<not> js_whitespace c" "c \<noteq> CHR ''-''" "c \<noteq> CHR ''+''" "c \<noteq> CHR ''x''" "c \<noteq> CHR ''X''"
  using assms
  by (auto simp: is_digit_def digit_of_def js_whitespace_def Let_def split: if_splits)

lemma decimal_digits: "list_all (is_digit 10) (decimal n) \<and> decimal n \<noteq> []"
proof (induction n rule: decimal.induct)
  case (1 n)
  show ?case
  proof (cases "n < 10")
    case True
    then show ?thesis by (simp add: decimal.simps [of n])
  next
    case False
    with 1 show ?thesis by (simp add: decimal.simps [of n])
  qed
qed

lemma digits_value_append:
  "digits_value r acc (xs @ ys) = digits_value r (digits_value r acc xs) ys"
  by (induction xs arbitrary: acc) simp_all

lemma digits_value_decimal: "digits_value 10 0 (decimal n) = n"
proof (induction n rule: decimal.induct)
  case (1 n)
  show ?case
  proof (cases "n < 10")
    case True
    then show ?thesis by (simp add: decimal.simps [of n])
  next
    case False
    with 1 show ?thesis by (simp add: decimal.simps [of n] digits_value_append)
  qed
qed

lemma takeWhile_all: "list_all P xs \<Longrightarrow> takeWhile P xs = xs"
  by (induction xs) simp_all

lemma parse_radix_decimal: "parse_radix 10 False (decimal n) = Fin (of_nat n)"
  using decimal_digits [of n]
  by (simp add: parse_radix_def takeWhile_all digits_value_decimal)

lemma parseInt_str_decimal: "parseInt_str (decimal n) = Fin (of_nat n)"
proof -
  from decimal_digits [of n] obtain c cs where d: "decimal n = c # cs" and c: "is_digit 10 c"
    and cs: "list_all (is_digit 10) cs"
    by (cases "decimal n") auto
  have u: "parse_unsigned False (c # cs) = parse_radix 10 False (c # cs)"
  proof (cases cs)
    case Nil
    then show ?thesis by simp
  next
    case (Cons b s)
    with cs have "is_digit 10 b" by simp
    with Cons show ?thesis by (simp add: is_digit_facts)
  qed
  have "dropWhile js_whitespace (c # cs) = c # cs"
    using c by (simp add: is_digit_facts)
  then have "parseInt_str (c # cs) = parse_unsigned False (c # cs)"
    using c by (simp add: parseInt_str_def is_digit_facts)
  with u d parse_radix_decimal [of n] show ?thesis by simp
qed

lemma pageNum_request:
  assumes "page q = None \<and> p = 1 \<or> page q = Some (decimal p)"
  shows "pageNum q = Fin (of_nat p)"
  using assms by (auto simp: pageNum_def toward_zero_def parseInt_str_decimal)

lemma limitNum_request:
  assumes "limit q = None \<and> n = 12 \<or> limit q = Some (decimal n)"
  shows "limitNum q = Fin (of_nat n)"
  using assms by (auto simp: limitNum_def toward_zero_def parseInt_str_decimal)

section \<open>Cart and favorites\<close>

text \<open>
  C4 says that the cart holds at most one entry for a product and that
  \<open>addToCart\<close> for a product in the cart adds to that entry. \<open>addToCart\<close>
  looks for the entry by comparing strings. Here the request names the product
  in the cart by the upper-case spelling of its identifier: the comparison misses
  the entry, the pushed string is cast to the same identifier, and the save
  stores a second entry for the product.
\<close>

theorem addToCart_duplicates_entry:
  "cart ann = [\<lparr>cart_item.product = shoes_id, quantity = Fin 5\<rparr>] \<and>
   cart_unique (cart ann) \<and>
   castObjectId SHOES_ID = Some shoes_id \<and>
   User_addToCart ann SHOES_ID (Some (Fin 1)) =
     Inr (ann\<lparr>cart := [\<lparr>cart_item.product = shoes_id, quantity = Fin 5\<rparr>,
                         \<lparr>cart_item.product = shoes_id, quantity = Fin 1\<rparr>]\<rparr>) \<and>
   \<not> cart_unique [\<lparr>cart_item.product = shoes_id, quantity = Fin 5\<rparr>,
                  \<lparr>cart_item.product = shoes_id, quantity = Fin 1\<rparr>] \<and>
   snd (addToCart shop ann_id SHOES_ID (Val (Fin 1))) =
     shop\<lparr>users := (users shop)(ann_id \<mapsto>
       ann\<lparr>cart := [\<lparr>cart_item.product = shoes_id, quantity = Fin 5\<rparr>,
                     \<lparr>cart_item.product = shoes_id, quantity = Fin 1\<rparr>]\<rparr>)\<rparr>"
proof -
  have ne: "shoes_id \<noteq> SHOES_ID"
    by (simp add: shoes_id_def SHOES_ID_def)
  have m: "User_addToCart ann SHOES_ID (Some (Fin 1)) =
     Inr (ann\<lparr>cart := [\<lparr>cart_item.product = shoes_id, quantity = Fin 5\<rparr>,
                         \<lparr>cart_item.product = shoes_id, quantity = Fin 1\<rparr>]\<rparr>)"
    using ne by (simp add: User_addToCart_def ann_def User_save_def validate_user_def
        valid_cart_item_def)
  have h: "snd (addToCart shop ann_id SHOES_ID (Val (Fin 1))) =
     shop\<lparr>users := (users shop)(ann_id \<mapsto>
       ann\<lparr>cart := [\<lparr>cart_item.product = shoes_id, quantity = Fin 5\<rparr>,
                     \<lparr>cart_item.product = shoes_id, quantity = Fin 1\<rparr>]\<rparr>)\<rparr>"
    by (simp add: addToCart_def Product_findById_def m toward_zero_def Let_def shop_def
        shoes_def)
  show ?thesis using m h by (simp add: ann_def cart_unique_def)
qed

text \<open>
  C6 says that adding a product that is among the favorites leaves the favorites
  unchanged. \<open>addToFavorites\<close> tests membership by comparing strings. Here the
  request names the favorite by the upper-case spelling of its identifier: the
  test misses it, the pushed string is cast to the same identifier, and the
  product is stored a second time, with answer 200.
\<close>

theorem addToFavorites_stores_again:
  "favorites ann = [shoes_id] \<and>
   castObjectId SHOES_ID = Some shoes_id \<and>
   User_addToFavorites ann SHOES_ID = Inr (ann\<lparr>favorites := [shoes_id, shoes_id]\<rparr>) \<and>
   addToFavorites shop ann_id SHOES_ID =
     (\<lparr>status = 200, body = FavoritesBody [shoes_id, shoes_id]\<rparr>,
      shop\<lparr>users := (users shop)(ann_id \<mapsto> ann\<lparr>favorites := [shoes_id, shoes_id]\<rparr>)\<rparr>)"
proof -
  have ne: "shoes_id \<noteq> SHOES_ID"
    by (simp add: shoes_id_def SHOES_ID_def)
  have m: "User_addToFavorites ann SHOES_ID = Inr (ann\<lparr>favorites := [shoes_id, shoes_id]\<rparr>)"
    using ne by (simp add: User_addToFavorites_def ann_def User_save_def validate_user_def
        valid_cart_item_def)
  have h: "addToFavorites shop ann_id SHOES_ID =
     (\<lparr>status = 200, body = FavoritesBody [shoes_id, shoes_id]\<rparr>,
      shop\<lparr>users := (users shop)(ann_id \<mapsto> ann\<lparr>favorites := [shoes_id, shoes_id]\<rparr>)\<rparr>)"
    by (simp add: addToFavorites_def Product_findById_def m favorites_response_def Let_def
        shop_def shoes_def)
  show ?thesis using m h by (simp add: ann_def)
qed

section \<open>Cart quantities\<close>







section \<open>The route of clearCart\<close>

text \<open>
  C9: \<open>PUT /api/users/cart/clear\<close> is dispatched to \<open>updateCartItem\<close> with
  \<open>productId\<close> bound to \<open>"clear"\<close>, since \<open>/cart/:productId\<close> is registered
  before \<open>/cart/clear\<close>; no request at all is dispatched to \<open>clearCart\<close>; and
  for a stored user, whose cart entries refer to products by ObjectId, the request
  fails with 400 or 404 and leaves the store, the cart included, as it was.
\<close>

theorem clearCart_route_shadowed:
  "dispatch user_routes PUT [''cart'', ''clear''] =
     Some (UpdateCartItem, [(''productId'', ''clear'')]) \<and>
   (\<forall>m path ps. dispatch user_routes m path \<noteq> Some (ClearCart, ps)) \<and>
   (\<forall>(st::store) uid qty (u::user).
      users st uid = Some u \<and> list_all (\<lambda>i. isObjectId (cart_item.product i)) (cart u) \<longrightarrow>
      (\<exists>r. cart_request st uid PUT [''cart'', ''clear''] qty = Some (r, st) \<and>
           response.status r \<in> {400, 404}))"
proof (intro conjI allI impI)
  show "dispatch user_routes PUT [''cart'', ''clear''] =
     Some (UpdateCartItem, [(''productId'', ''clear'')])"
    by (rule put_cart_clear)
next
  fix m path ps
  show "dispatch user_routes m path \<noteq> Some (ClearCart, ps)"
    by (rule clearCart_unreachable)
next
  fix st :: store and uid qty and u :: user
  assume a: "users st uid = Some u \<and> list_all (\<lambda>i. isObjectId (cart_item.product i)) (cart u)"
  have "cart_request st uid PUT [''cart'', ''clear''] qty = Some (updateCartItem st uid ''clear'' qty)"
    by (simp add: cart_request_def put_cart_clear)
  with updateCartItem_clear [of st uid u qty] a
  show "\<exists>r. cart_request st uid PUT [''cart'', ''clear''] qty = Some (r, st) \<and>
           response.status r \<in> {400, 404}"
    by auto
qed

theorem clearCart_route_shadowed_witness:
  "users shop ann_id = Some ann \<and>
   list_all (\<lambda>i. isObjectId (cart_item.product i)) (cart ann) \<and>
   cart_request shop ann_id PUT [''cart'', ''clear''] Undefined =
     Some (reply 400 ''Quantity must be at least 1'', shop) \<and>
   cart_request shop ann_id PUT [''cart'', ''clear''] (Val (Fin 2)) =
     Some (reply 404 ''Item not found in cart'', shop) \<and>
   cart ann \<noteq> []"
proof -
  have a: "users shop ann_id = Some ann"
    and b: "list_all (\<lambda>i. isObjectId (cart_item.product i)) (cart ann)"
    by (simp_all add: shop_def ann_def)
  from clearCart_route_shadowed a b
  have "\<exists>r. cart_request shop ann_id PUT [''cart'', ''clear''] Undefined = Some (r, shop) \<and>
           response.status r \<in> {400, 404}"
    and "\<exists>r. cart_request shop ann_id PUT [''cart'', ''clear''] (Val (Fin 2)) = Some (r, shop) \<and>
           response.status r \<in> {400, 404}"
    by blast+
  moreover have "fst (updateCartItem shop ann_id ''clear'' Undefined) =
      reply 400 ''Quantity must be at least 1''"
    by (simp add: updateCartItem_def)
  moreover have "fst (updateCartItem shop ann_id ''clear'' (Val (Fin 2))) =
      reply 404 ''Item not found in cart''"
    by (simp add: updateCartItem_def shop_def ann_def User_updateCartItem_def shoes_id_def)
  moreover have "cart_request shop ann_id PUT [''cart'', ''clear''] q =
      Some (updateCartItem shop ann_id ''clear'' q)" for q
    by (simp add: cart_request_def put_cart_clear)
  ultimately show ?thesis using a b by (auto simp: ann_def)
qed

section \<open>Offers\<close>

text \<open>
  C1 says that \<open>respondToOffer\<close> applies accept, reject and counter only to a
  pending offer and answers 400 otherwise. The handler never reads the offer's
  status: here the seller rejects an offer that is already accepted, the answer
  is 200 and the stored status becomes \<open>rejected\<close>. \<open>respondToCounterOffer\<close>
  does check the status before it changes it.
\<close>

theorem respondToOffer_reopens_accepted:
  "offer.status (ann_offer\<lparr>offer.status := accepted\<rparr>) = accepted \<and>
   offers settled_market = [ann_offer\<lparr>offer.status := accepted\<rparr>] \<and>
   respondToOffer settled_market bob_id offer_id (Val ''reject'') Undefined Undefined =
     (\<lparr>status = 200, body = OfferBody (ann_offer\<lparr>offer.status := rejected\<rparr>)\<rparr>,
      settled_market\<lparr>offers := [ann_offer\<lparr>offer.status := rejected\<rparr>]\<rparr>)"
  by (simp add: settled_market_def shop_def ann_offer_def shoes_def respondToOffer_def
      Offer_findById_def Offer_update_def validate_offer_def Let_def)




text \<open>
  C3: for an existing offer, \<open>respondToCounterOffer\<close> answers 403 and changes
  nothing when the caller is not the buyer; for the buyer it answers 400 and
  changes nothing when the status is not \<open>countered\<close>, and also when the action
  is neither \<open>accept\<close> nor \<open>reject\<close>; for the buyer of a countered (and
  schema-valid) offer, \<open>accept\<close> stores the status \<open>accepted\<close> and \<open>reject\<close> the
  status \<open>rejected\<close>, with answer 200. Hence the store changes only if the caller
  is the buyer, the status is \<open>countered\<close> and the action is one of the two.
\<close>

theorem respondToCounterOffer_guards:
  assumes "Offer_findById (offers st) offerId = Inr (Some ofr)"
  shows "(buyer ofr \<noteq> uid \<longrightarrow>
            respondToCounterOffer st uid offerId action =
              (reply 403 ''Not authorized to respond to this counter offer'', st)) \<and>
         (buyer ofr = uid \<and> offer.status ofr \<noteq> countered \<longrightarrow>
            respondToCounterOffer st uid offerId action =
              (reply 400 ''This offer does not have a counter offer to respond to'', st)) \<and>
         (buyer ofr = uid \<and> offer.status ofr = countered \<and>
          action \<noteq> Val ''accept'' \<and> action \<noteq> Val ''reject'' \<longrightarrow>
            respondToCounterOffer st uid offerId action = (reply 400 ''Invalid action'', st)) \<and>
         (buyer ofr = uid \<and> offer.status ofr = countered \<and> validate_offer ofr \<longrightarrow>
            respondToCounterOffer st uid offerId (Val ''accept'') =
              (\<lparr>status = 200, body = OfferBody (ofr\<lparr>offer.status := accepted\<rparr>)\<rparr>,
               st\<lparr>offers := map (\<lambda>x. if offer.doc_id x = offer.doc_id ofr
                                         then ofr\<lparr>offer.status := accepted\<rparr> else x) (offers st)\<rparr>) \<and>
            respondToCounterOffer st uid offerId (Val ''reject'') =
              (\<lparr>status = 200, body = OfferBody (ofr\<lparr>offer.status := rejected\<rparr>)\<rparr>,
               st\<lparr>offers := map (\<lambda>x. if offer.doc_id x = offer.doc_id ofr
                                         then ofr\<lparr>offer.status := rejected\<rparr> else x) (offers st)\<rparr>)) \<and>
         (snd (respondToCounterOffer st uid offerId action) \<noteq> st \<longrightarrow>
            buyer ofr = uid \<and> offer.status ofr = countered \<and>
            (action = Val ''accept'' \<or> action = Val ''reject''))"
proof (intro conjI impI)
  assume "buyer ofr \<noteq> uid"
  with assms show "respondToCounterOffer st uid offerId action =
              (reply 403 ''Not authorized to respond to this counter offer'', st)"
    by (simp add: respondToCounterOffer_def)
next
  assume "buyer ofr = uid \<and> offer.status ofr \<noteq> countered"
  with assms show "respondToCounterOffer st uid offerId action =
              (reply 400 ''This offer does not have a counter offer to respond to'', st)"
    by (simp add: respondToCounterOffer_def)
next
  assume "buyer ofr = uid \<and> offer.status ofr = countered \<and>
          action \<noteq> Val ''accept'' \<and> action \<noteq> Val ''reject''"
  with assms show "respondToCounterOffer st uid offerId action = (reply 400 ''Invalid action'', st)"
    by (simp add: respondToCounterOffer_def)
next
  assume "buyer ofr = uid \<and> offer.status ofr = countered \<and> validate_offer ofr"
  with assms show "respondToCounterOffer st uid offerId (Val ''accept'') =
              (\<lparr>status = 200, body = OfferBody (ofr\<lparr>offer.status := accepted\<rparr>)\<rparr>,
               st\<lparr>offers := map (\<lambda>x. if offer.doc_id x = offer.doc_id ofr
                                         then ofr\<lparr>offer.status := accepted\<rparr> else x) (offers st)\<rparr>)"
    by (simp add: respondToCounterOffer_def Offer_update_def Let_def)
next
  assume "buyer ofr = uid \<and> offer.status ofr = countered \<and> validate_offer ofr"
  with assms show "respondToCounterOffer st uid offerId (Val ''reject'') =
              (\<lparr>status = 200, body = OfferBody (ofr\<lparr>offer.status := rejected\<rparr>)\<rparr>,
               st\<lparr>offers := map (\<lambda>x. if offer.doc_id x = offer.doc_id ofr
                                         then ofr\<lparr>offer.status := rejected\<rparr> else x) (offers st)\<rparr>)"
    by (simp add: respondToCounterOffer_def Offer_update_def Let_def)
next
  assume a: "snd (respondToCounterOffer st uid offerId action) \<noteq> st"
  with assms show "buyer ofr = uid"
    by (auto simp: respondToCounterOffer_def split: if_splits)
next
  assume a: "snd (respondToCounterOffer st uid offerId action) \<noteq> st"
  with assms show "offer.status ofr = countered"
    by (auto simp: respondToCounterOffer_def split: if_splits)
next
  assume a: "snd (respondToCounterOffer st uid offerId action) \<noteq> st"
  with assms show "action = Val ''accept'' \<or> action = Val ''reject''"
    by (auto simp: respondToCounterOffer_def Let_def split: if_splits)
qed

theorem respondToCounterOffer_guards_witness:
  "Offer_findById (offers countered_market) offer_id = Inr (Some countered_offer) \<and>
   buyer countered_offer = ann_id \<and> offer.status countered_offer = countered \<and>
   validate_offer countered_offer \<and>
   respondToCounterOffer countered_market bob_id offer_id (Val ''accept'') =
     (reply 403 ''Not authorized to respond to this counter offer'', countered_market) \<and>
   respondToCounterOffer countered_market ann_id offer_id (Val ''counter'') =
     (reply 400 ''Invalid action'', countered_market) \<and>
   respondToCounterOffer countered_market ann_id offer_id (Val ''reject'') =
     (\<lparr>status = 200, body = OfferBody (countered_offer\<lparr>offer.status := rejected\<rparr>)\<rparr>,
      countered_market\<lparr>offers := [countered_offer\<lparr>offer.status := rejected\<rparr>]\<rparr>) \<and>
   Offer_findById (offers settled_market) offer_id =
     Inr (Some (ann_offer\<lparr>offer.status := accepted\<rparr>)) \<and>
   respondToCounterOffer settled_market ann_id offer_id (Val ''reject'') =
     (reply 400 ''This offer does not have a counter offer to respond to'', settled_market)"
proof -
  have f: "Offer_findById (offers countered_market) offer_id = Inr (Some countered_offer)"
    by (simp add: countered_market_def countered_offer_def ann_offer_def Offer_findById_def)
  have g: "Offer_findById (offers settled_market) offer_id =
     Inr (Some (ann_offer\<lparr>offer.status := accepted\<rparr>))"
    by (simp add: settled_market_def ann_offer_def Offer_findById_def)
  have b: "buyer countered_offer = ann_id" "offer.status countered_offer = countered"
    "validate_offer countered_offer" "offer.doc_id countered_offer = offer_id"
    by (simp_all add: countered_offer_def ann_offer_def validate_offer_def)
  have o: "offers countered_market = [countered_offer]"
    by (simp add: countered_market_def)
  note t = respondToCounterOffer_guards [OF f]
  note t' = respondToCounterOffer_guards [OF g]
  have 1: "respondToCounterOffer countered_market bob_id offer_id (Val ''accept'') =
     (reply 403 ''Not authorized to respond to this counter offer'', countered_market)"
    using t [of bob_id "Val ''accept''"] b by simp
  have 2: "respondToCounterOffer countered_market ann_id offer_id (Val ''counter'') =
     (reply 400 ''Invalid action'', countered_market)"
    using t [of ann_id "Val ''counter''"] b by simp
  have 3: "respondToCounterOffer countered_market ann_id offer_id (Val ''reject'') =
     (\<lparr>status = 200, body = OfferBody (countered_offer\<lparr>offer.status := rejected\<rparr>)\<rparr>,
      countered_market\<lparr>offers := [countered_offer\<lparr>offer.status := rejected\<rparr>]\<rparr>)"
    using t [of ann_id "Val ''reject''"] b by (simp add: o)
  have 4: "respondToCounterOffer settled_market ann_id offer_id (Val ''reject'') =
     (reply 400 ''This offer does not have a counter offer to respond to'', settled_market)"
    using t' [of ann_id "Val ''reject''"] by (simp add: ann_offer_def)
  show ?thesis using f g b 1 2 3 4 by simp
qed

section \<open>Product listing\<close>

text \<open>
  C8: for a query with \<open>sort=price_low\<close> whose \<open>page\<close> parameter is the decimal
  numeral of \<open>p \<ge> 1\<close> (or is absent, with \<open>p = 1\<close>) and whose \<open>limit\<close> parameter
  is the decimal numeral of \<open>n \<ge> 1\<close> (or is absent, with \<open>n = 12\<close>), and whose
  filter can be cast, \<open>getProducts\<close> answers 200 with the matching products in
  ascending order of price, without the first \<open>(p - 1) * n\<close> and cut to \<open>n\<close>,
  with \<open>total\<close> the number of all matching products, \<open>page\<close> equal to \<open>p\<close> and
  \<open>pages\<close> the ceiling of \<open>total / n\<close>. The witness is the scenario of the
  claim, four Footwear products priced 10, 40, 25 and 5 with limit 2, at page 1
  and at page 2.
\<close>

theorem getProducts_price_low_page:
  assumes "query.sort q = Some ''price_low''"
    and "page q = None \<and> p = 1 \<or> page q = Some (decimal p)" and "1 \<le> p"
    and "limit q = None \<and> n = 12 \<or> limit q = Some (decimal n)" and "1 \<le> n"
    and "\<not> query_cast_fails to_number q"
  shows "getProducts to_number text_match st q =
           \<lparr>status = 200,
            body = ProductsBody
              (take n (drop ((p - 1) * n)
                 (sort_key product.price (filter (matches to_number text_match q) (products st)))))
              (length (filter (matches to_number text_match q) (products st)))
              (Fin (of_nat p))
              (Fin (of_int \<lceil>rat_of_nat (length (filter (matches to_number text_match q) (products st)))
                              / rat_of_nat n\<rceil>))\<rparr> \<and>
         sorted (map product.price
           (take n (drop ((p - 1) * n)
              (sort_key product.price (filter (matches to_number text_match q) (products st))))))"
proof (intro conjI)
  let ?found = "filter (matches to_number text_match q) (products st)"
  note pg = pageNum_request [OF assms(2)]
  note lm = limitNum_request [OF assms(4)]
  have p1: "(of_nat p :: rat) - 1 = of_nat (p - 1)"
    using assms(3) by (simp add: of_nat_diff)
  have skip: "js_mul (js_sub (pageNum q) (Fin 1)) (limitNum q) = Fin (of_nat ((p - 1) * n))"
    by (simp add: pg lm js_sub_def p1)
  have n0: "(of_nat n :: rat) \<noteq> 0" using assms(5) by simp
  have sl: "skip_limit (Fin (of_nat ((p - 1) * n))) (Fin (of_nat n)) xs =
            Inr (take n (drop ((p - 1) * n) xs))" for xs :: "product list"
    using n0 by (simp del: of_nat_mult)
  show "getProducts to_number text_match st q =
           \<lparr>status = 200,
            body = ProductsBody
              (take n (drop ((p - 1) * n) (sort_key product.price ?found)))
              (length ?found)
              (Fin (of_nat p))
              (Fin (of_int \<lceil>rat_of_nat (length ?found) / rat_of_nat n\<rceil>))\<rparr>"
    unfolding getProducts_def Let_def skip
    using assms(1,6) n0
    by (simp add: pg lm sl sortOption_def del: of_nat_mult)
  show "sorted (map product.price
           (take n (drop ((p - 1) * n) (sort_key product.price ?found))))"
    by (simp add: take_map [symmetric] drop_map [symmetric] sorted_wrt_take sorted_wrt_drop)
qed

theorem getProducts_price_low_page_witness:
  "query.sort footwear_query = Some ''price_low'' \<and>
   query.category footwear_query = Some ''Footwear'' \<and>
   page footwear_query = Some (decimal 1) \<and> limit footwear_query = Some (decimal 2) \<and>
   (\<forall>to_number text_match.
      \<not> query_cast_fails to_number footwear_query \<and>
      getProducts to_number text_match catalog footwear_query =
        \<lparr>status = 200,
         body = ProductsBody
           [footwear ''5f1a2b3c4d5e6f7a8b9c0d14'' 5, footwear ''5f1a2b3c4d5e6f7a8b9c0d11'' 10]
           4 (Fin 1) (Fin 2)\<rparr> \<and>
      getProducts to_number text_match catalog (footwear_query\<lparr>page := Some (decimal 2)\<rparr>) =
        \<lparr>status = 200,
         body = ProductsBody
           [footwear ''5f1a2b3c4d5e6f7a8b9c0d13'' 25, footwear ''5f1a2b3c4d5e6f7a8b9c0d12'' 40]
           4 (Fin 2) (Fin 2)\<rparr>)"
proof -
  have d: "decimal 1 = ''1''" "decimal 2 = ''2''" "decimal (Suc 0) = ''1''"
    by code_simp+
  have a: "query.sort footwear_query = Some ''price_low''"
    and c: "query.category footwear_query = Some ''Footwear''"
    by (simp_all add: footwear_query_def)
  have a2: "query.sort (footwear_query\<lparr>page := Some (decimal 2)\<rparr>) = Some ''price_low''"
    by (simp add: footwear_query_def)
  have pg: "page footwear_query = None \<and> (1::nat) = 1 \<or> page footwear_query = Some (decimal 1)"
    and lm: "limit footwear_query = None \<and> (2::nat) = 12 \<or> limit footwear_query = Some (decimal 2)"
    by (simp_all add: footwear_query_def d)
  have pg2: "page (footwear_query\<lparr>page := Some (decimal 2)\<rparr>) = None \<and> (2::nat) = 1 \<or>
             page (footwear_query\<lparr>page := Some (decimal 2)\<rparr>) = Some (decimal 2)"
    and lm2: "limit (footwear_query\<lparr>page := Some (decimal 2)\<rparr>) = None \<and> (2::nat) = 12 \<or>
              limit (footwear_query\<lparr>page := Some (decimal 2)\<rparr>) = Some (decimal 2)"
    by (simp_all add: footwear_query_def d)
  have nc: "\<not> query_cast_fails to_number footwear_query"
    "\<not> query_cast_fails to_number (footwear_query\<lparr>page := Some (decimal 2)\<rparr>)" for to_number
    by (simp_all add: query_cast_fails_def footwear_query_def given_def)
  have f: "filter (matches to_number text_match footwear_query) (products catalog) =
      [footwear ''5f1a2b3c4d5e6f7a8b9c0d11'' 10, footwear ''5f1a2b3c4d5e6f7a8b9c0d12'' 40,
       footwear ''5f1a2b3c4d5e6f7a8b9c0d13'' 25, footwear ''5f1a2b3c4d5e6f7a8b9c0d14'' 5]"
    "filter (matches to_number text_match (footwear_query\<lparr>page := Some (decimal 2)\<rparr>))
       (products catalog) =
      [footwear ''5f1a2b3c4d5e6f7a8b9c0d11'' 10, footwear ''5f1a2b3c4d5e6f7a8b9c0d12'' 40,
       footwear ''5f1a2b3c4d5e6f7a8b9c0d13'' 25, footwear ''5f1a2b3c4d5e6f7a8b9c0d14'' 5]"
    for to_number text_match
    by (simp_all add: catalog_def matches_def footwear_query_def given_def footwear_def
        handbag_def)
  have so: "sort_key product.price
      [footwear ''5f1a2b3c4d5e6f7a8b9c0d11'' 10, footwear ''5f1a2b3c4d5e6f7a8b9c0d12'' 40,
       footwear ''5f1a2b3c4d5e6f7a8b9c0d13'' 25, footwear ''5f1a2b3c4d5e6f7a8b9c0d14'' 5] =
      [footwear ''5f1a2b3c4d5e6f7a8b9c0d14'' 5, footwear ''5f1a2b3c4d5e6f7a8b9c0d11'' 10,
       footwear ''5f1a2b3c4d5e6f7a8b9c0d13'' 25, footwear ''5f1a2b3c4d5e6f7a8b9c0d12'' 40]"
    by (simp add: footwear_def)
  have ce: "\<lceil>4 / 2 :: rat\<rceil> = 2" by code_simp
  have one: "1 \<le> (1::nat)" and two: "1 \<le> (2::nat)" by simp_all
  have r1: "getProducts to_number text_match catalog footwear_query =
        \<lparr>status = 200,
         body = ProductsBody
           [footwear ''5f1a2b3c4d5e6f7a8b9c0d14'' 5, footwear ''5f1a2b3c4d5e6f7a8b9c0d11'' 10]
           4 (Fin 1) (Fin 2)\<rparr>" for to_number text_match
  proof -
    note t = getProducts_price_low_page [OF a pg one lm two nc(1), of to_number text_match catalog]
    from t have "getProducts to_number text_match catalog footwear_query =
           \<lparr>status = 200,
            body = ProductsBody
              (take 2 (drop ((1 - 1) * 2)
                 (sort_key product.price
                    (filter (matches to_number text_match footwear_query) (products catalog)))))
              (length (filter (matches to_number text_match footwear_query) (products catalog)))
              (Fin (of_nat 1))
              (Fin (of_int \<lceil>rat_of_nat
                  (length (filter (matches to_number text_match footwear_query) (products catalog)))
                              / rat_of_nat 2\<rceil>))\<rparr>"
      by (rule conjunct1)
    then show ?thesis
      unfolding f so by (simp add: ce)
  qed
  have r2: "getProducts to_number text_match catalog (footwear_query\<lparr>page := Some (decimal 2)\<rparr>) =
        \<lparr>status = 200,
         body = ProductsBody
           [footwear ''5f1a2b3c4d5e6f7a8b9c0d13'' 25, footwear ''5f1a2b3c4d5e6f7a8b9c0d12'' 40]
           4 (Fin 2) (Fin 2)\<rparr>" for to_number text_match
  proof -
    note t = getProducts_price_low_page [OF a2 pg2 two lm2 two nc(2), of to_number text_match catalog]
    from t have "getProducts to_number text_match catalog (footwear_query\<lparr>page := Some (decimal 2)\<rparr>) =
           \<lparr>status = 200,
            body = ProductsBody
              (take 2 (drop ((2 - 1) * 2)
                 (sort_key product.price
                    (filter (matches to_number text_match (footwear_query\<lparr>page := Some (decimal 2)\<rparr>))
                       (products catalog)))))
              (length (filter (matches to_number text_match (footwear_query\<lparr>page := Some (decimal 2)\<rparr>))
                 (products catalog)))
              (Fin (of_nat 2))
              (Fin (of_int \<lceil>rat_of_nat
                  (length (filter (matches to_number text_match (footwear_query\<lparr>page := Some (decimal 2)\<rparr>))
                     (products catalog)))
                              / rat_of_nat 2\<rceil>))\<rparr>"
      by (rule conjunct1)
    then show ?thesis
      unfolding f so by (simp add: ce)
  qed
  show ?thesis using a c nc r1 r2 by (simp add: footwear_query_def d)
qed

section \<open>Discount percentage\<close>

text \<open>
  C7, as stated, fails: a product whose \<open>originalPrice\<close> is set to \<open>0\<close> (the schema
  allows it, \<open>min: 0\<close>) has the discount \<open>0\<close>, where the quotient of the
  specification divides by zero and is \<open>-Infinity\<close>.
\<close>

theorem discountPercentage_zero_original_counterexample:
  "originalPrice free_shoes = Some 0 \<and>
   discountPercentage free_shoes = Fin 0 \<and>
   discountPercentage_spec free_shoes = NegInf"
  by code_simp

text \<open>
  C7, amended: the discount is \<open>0\<close> when \<open>originalPrice\<close> is unset or is \<open>0\<close>, and
  otherwise it is \<open>Math.round(((originalPrice - price) / originalPrice) * 100)\<close>
  as JavaScript computes it, the difference, the quotient and the product each
  rounded to double precision; so it agrees with the specification's formula for
  every product whose \<open>originalPrice\<close> is not \<open>0\<close>. For the price 17 and the
  original price 40 the product is a double just below 57.5 and the discount is
  57.
\<close>

theorem discountPercentage_correct:
  "(originalPrice p = None \<or> originalPrice p = Some 0 \<longrightarrow> discountPercentage p = Fin 0) \<and>
   (\<forall>orig. originalPrice p = Some orig \<and> orig \<noteq> 0 \<longrightarrow>
      discountPercentage p =
        Math_round
          (dbl_mul (dbl_div (dbl_sub (Fin orig) (Fin (product.price p))) (Fin orig)) (Fin 100))) \<and>
   (originalPrice p \<noteq> Some 0 \<longrightarrow> discountPercentage p = discountPercentage_spec p)"
  by (auto simp: discountPercentage_def discountPercentage_spec_def split: option.split)

theorem discountPercentage_correct_witness:
  "originalPrice sale_shoes = Some 80 \<and> product.price sale_shoes = 45 \<and>
   discountPercentage sale_shoes = Fin 44 \<and>
   originalPrice marked_down = Some 40 \<and> product.price marked_down = 17 \<and>
   discountPercentage marked_down = Fin 57 \<and>
   discountPercentage_spec marked_down = Fin 57"
proof -
  have e1: "Math_round (dbl_mul (dbl_div (dbl_sub (Fin 80) (Fin 45)) (Fin 80)) (Fin 100)) = Fin 44"
    by code_simp
  have e2: "Math_round (dbl_mul (dbl_div (dbl_sub (Fin 40) (Fin 17)) (Fin 40)) (Fin 100)) = Fin 57"
    by code_simp
  have s: "originalPrice sale_shoes = Some 80" "product.price sale_shoes = 45"
    and m: "originalPrice marked_down = Some 40" "product.price marked_down = 17"
    by (simp_all add: sale_shoes_def marked_down_def)
  from discountPercentage_correct [of sale_shoes] s e1
  have 1: "discountPercentage sale_shoes = Fin 44" by simp
  from discountPercentage_correct [of marked_down] m e2
  have 2: "discountPercentage marked_down = Fin 57" by simp
  from discountPercentage_correct [of marked_down, THEN conjunct2, THEN conjunct2] m
  have "discountPercentage marked_down = discountPercentage_spec marked_down" by simp
  with 2 have 3: "discountPercentage_spec marked_down = Fin 57" by simp
  show ?thesis using s m 1 2 3 by simp
qed

end
